theory Spec2Isabelle
  imports Main "HOL-Library.Word"
begin

section \<open>Values of the host language\<close>

text \<open>
  A Buffer is a list of bytes. JavaScript strings are kept as \<open>string\<close>, holding the
  UTF-8 bytes of the text: the code only compares strings, tests prefixes and substrings
  against ASCII literals and concatenates them, and never counts their code units.
  BigInt values are \<open>int\<close>; array indices and lengths are \<open>nat\<close>.
\<close>

type_synonym byte = "8 word"
type_synonym bytes = "byte list"

text \<open>What a caller may pass where a Buffer is expected.\<close>

datatype js_value = JBuffer bytes | JString string | JUndefined | JNull

text \<open>Error objects; both kinds are \<open>instanceof Error\<close>.\<close>

datatype error = Error string | TypeError string

fun message :: "error \<Rightarrow> string" where
  "message (Error m) = m"
| "message (TypeError m) = m"

text \<open>
  A call either returns a value or throws. \<open>try_catch\<close> is a \<open>try\<close> block with
  its \<open>catch\<close> handler.
\<close>

datatype 'a completion = Returns 'a | Throws error

definition try_catch :: "'a completion \<Rightarrow> (error \<Rightarrow> 'a completion) \<Rightarrow> 'a completion" where
  "try_catch body handler = (case body of Returns v \<Rightarrow> Returns v | Throws e \<Rightarrow> handler e)"

section \<open>The parsed certificate\<close>

datatype CertType = User | Host | Unknown

record certificate =
  type :: string
  nonce :: bytes
  serial :: int
  certType :: CertType
  keyId :: string
  principals :: "string list"
  validAfter :: int
  validBefore :: int
  criticalOptions :: "string \<rightharpoonup> bytes"
  extensions :: "string \<rightharpoonup> bytes"
  signatureKeyBlob :: bytes
  signature :: bytes

section \<open>validateCertificate\<close>

record verdict =
  valid :: bool
  reason :: "string option"

text \<open>\<open>Array.prototype.join\<close> on an array of strings.\<close>

fun join :: "string \<Rightarrow> string list \<Rightarrow> string" where
  "join sep [] = []"
| "join sep [x] = x"
| "join sep (x # y # ys) = x @ sep @ join sep (y # ys)"

text \<open>
  \<open>validateCertificate(cert, username)\<close>. The wall clock
  \<open>BigInt(Math.floor(Date.now() / 1000))\<close> is the parameter \<open>now\<close>. A BigInt is
  truthy iff it is not \<open>0n\<close>, which is what \<open>cert.validBefore &&\<close> and
  \<open>cert.validAfter &&\<close> test; an array is always truthy.
\<close>

definition validateCertificate :: "error + certificate \<Rightarrow> string \<Rightarrow> int \<Rightarrow> verdict" where
  \<open>validateCertificate cert username now =
     (case cert of
        Inl err \<Rightarrow> \<lparr>valid = False, reason = Some (message err)\<rparr>
      | Inr c \<Rightarrow>
          if validBefore c \<noteq> 0 \<and> now \<ge> validBefore c then
            \<lparr>valid = False, reason = Some ''Certificate has expired''\<rparr>
          else if validAfter c \<noteq> 0 \<and> now < validAfter c then
            \<lparr>valid = False, reason = Some ''Certificate is not yet valid''\<rparr>
          else if certType c = User \<and> length (principals c) > 0
                  \<and> username \<notin> set (principals c) then
            \<lparr>valid = False,
             reason = Some (''Username "'' @ username @ ''" not in certificate principals: ''
                            @ join '', '' (principals c))\<rparr>
          else \<lparr>valid = True, reason = None\<rparr>)\<close>

section \<open>Buffer primitives\<close>

text \<open>
  \<open>Buffer.prototype.slice(start, end)\<close> for non-negative integer arguments: both ends
  are clamped to the length, and an end before the start gives the empty Buffer. It never
  throws. A \<open>NaN\<close> end is taken as 0; the callers below pass 0 for it.
\<close>

definition slice_buffer :: "bytes \<Rightarrow> nat \<Rightarrow> nat \<Rightarrow> bytes" where
  "slice_buffer buf start stop = take (stop - start) (drop start buf)"

text \<open>
  Modelled from the spec: \<open>readUInt32BE\<close> is imported from \<open>lib/protocol/utils.js\<close>,
  which is not among the sources. The spec fixes every length prefix and \<open>certType\<close>
  as an unsigned 32-bit big-endian integer, read here from four bytes at \<open>offset\<close>. The
  helper does no bound check of its own; indexing a Buffer past its end gives
  \<open>undefined\<close> and arithmetic on it gives \<open>NaN\<close>, which is the result \<open>None\<close>. Each
  caller below spells out what it does with a \<open>NaN\<close>.
\<close>

definition readUInt32BE :: "bytes \<Rightarrow> nat \<Rightarrow> nat option" where
  "readUInt32BE buf offset =
     (if offset + 4 \<le> length buf then
        Some (unat (buf ! offset) * 16777216 + unat (buf ! (offset + 1)) * 65536
              + unat (buf ! (offset + 2)) * 256 + unat (buf ! (offset + 3)))
      else None)"

text \<open>The value of \<open>Buffer.prototype.readBigUInt64BE\<close> on eight bytes: big-endian.\<close>

definition bigUInt64BE :: "bytes \<Rightarrow> int" where
  "bigUInt64BE bs = foldl (\<lambda>acc b. acc * 256 + uint b) 0 bs"

text \<open>
  \<open>buf.toString('utf8')\<close>: well-formed UTF-8 sequences are kept, every ill-formed
  sequence becomes U+FFFD (bytes EF BF BD). The arguments are the number of continuation
  bytes still needed, the bounds for the next continuation byte, and the bytes of the
  sequence seen so far.
\<close>

fun utf8_decode :: "nat \<Rightarrow> byte \<Rightarrow> byte \<Rightarrow> bytes \<Rightarrow> bytes \<Rightarrow> bytes" where
  "utf8_decode 0 lo hi seen [] = []"
| "utf8_decode (Suc n) lo hi seen [] = [0xEF, 0xBF, 0xBD]"
| "utf8_decode 0 lo hi seen (b # bs) =
     (if b \<le> 0x7F then b # utf8_decode 0 0x80 0xBF [] bs
      else if 0xC2 \<le> b \<and> b \<le> 0xDF then utf8_decode 1 0x80 0xBF [b] bs
      else if 0xE0 \<le> b \<and> b \<le> 0xEF then
        utf8_decode 2 (if b = 0xE0 then 0xA0 else 0x80) (if b = 0xED then 0x9F else 0xBF) [b] bs
      else if 0xF0 \<le> b \<and> b \<le> 0xF4 then
        utf8_decode 3 (if b = 0xF0 then 0x90 else 0x80) (if b = 0xF4 then 0x8F else 0xBF) [b] bs
      else [0xEF, 0xBF, 0xBD] @ utf8_decode 0 0x80 0xBF [] bs)"
| "utf8_decode (Suc n) lo hi seen (b # bs) =
     (if b < lo \<or> hi < b then [0xEF, 0xBF, 0xBD] @ utf8_decode 0 0x80 0xBF [] (b # bs)
      else if n = 0 then seen @ [b] @ utf8_decode 0 0x80 0xBF [] bs
      else utf8_decode n 0x80 0xBF (seen @ [b]) bs)"

definition toString_utf8 :: "bytes \<Rightarrow> string" where
  "toString_utf8 buf = map (\<lambda>b. char_of (unat b)) (utf8_decode 0 0x80 0xBF [] buf)"

text \<open>\<open>String.prototype.startsWith\<close> and \<open>String.prototype.includes\<close>.\<close>

definition startsWith :: "string \<Rightarrow> string \<Rightarrow> bool" where
  "startsWith s p = (take (length p) s = p)"

fun includes_str :: "string \<Rightarrow> string \<Rightarrow> bool" where
  "includes_str [] p = (p = [])"
| "includes_str (c # cs) p = (startsWith (c # cs) p \<or> includes_str cs p)"

section \<open>parseSSHCertificate\<close>

text \<open>Statements in sequence: a throw in the first skips the rest.\<close>

definition cbind :: "'a completion \<Rightarrow> ('a \<Rightarrow> 'b completion) \<Rightarrow> 'b completion" where
  "cbind c f = (case c of Returns v \<Rightarrow> f v | Throws e \<Rightarrow> Throws e)"

text \<open>
  The three readers are closures over \<open>certBuffer\<close> and the cursor \<open>pos\<close>; here they take
  the cursor and return the new one with the value. In \<open>readString\<close> and \<open>readUInt32\<close>
  the guard in front makes the read in range, so the \<open>None\<close> branch is never taken.
\<close>

definition readString :: "bytes \<Rightarrow> nat \<Rightarrow> (bytes \<times> nat) completion" where
  "readString certBuffer pos =
     (if pos + 4 > length certBuffer then Throws (Error ''Unexpected end of certificate'')
      else case readUInt32BE certBuffer pos of
        None \<Rightarrow> Throws (Error ''Unexpected end of certificate'')
      | Some len \<Rightarrow>
          if pos + 4 + len > length certBuffer then
            Throws (Error ''Unexpected end of certificate'')
          else Returns (slice_buffer certBuffer (pos + 4) (pos + 4 + len), pos + 4 + len))"

definition readUInt64 :: "bytes \<Rightarrow> nat \<Rightarrow> (int \<times> nat) completion" where
  "readUInt64 certBuffer pos =
     (if pos + 8 > length certBuffer then Throws (Error ''Unexpected end of certificate'')
      else Returns (bigUInt64BE (slice_buffer certBuffer pos (pos + 8)), pos + 8))"

definition readUInt32 :: "bytes \<Rightarrow> nat \<Rightarrow> (nat \<times> nat) completion" where
  "readUInt32 certBuffer pos =
     (if pos + 4 > length certBuffer then Throws (Error ''Unexpected end of certificate'')
      else case readUInt32BE certBuffer pos of
        None \<Rightarrow> Throws (Error ''Unexpected end of certificate'')
      | Some n \<Rightarrow> Returns (n, pos + 4))"

text \<open>
  The loop over \<open>principalsBuffer\<close>, from \<open>pPos\<close>. There is no guard in front of
  \<open>readUInt32BE\<close> here. When the length is \<open>NaN\<close> the slice ends at 0 and is empty,
  the empty string is pushed, \<open>pPos\<close> becomes \<open>NaN\<close> and the loop test fails. When the
  length is a number, \<open>slice\<close> clamps it to the bytes that remain.
\<close>

function parsePrincipals :: "bytes \<Rightarrow> nat \<Rightarrow> string list" where
  "parsePrincipals principalsBuffer pPos =
     (if pPos < length principalsBuffer then
        (case readUInt32BE principalsBuffer pPos of
           None \<Rightarrow> [toString_utf8 (slice_buffer principalsBuffer (pPos + 4) 0)]
         | Some len \<Rightarrow>
             toString_utf8 (slice_buffer principalsBuffer (pPos + 4) (pPos + 4 + len))
               # parsePrincipals principalsBuffer (pPos + 4 + len))
      else [])"
  by pat_completeness auto
termination
  by (relation "measure (\<lambda>(b, p). length b - p)") auto

text \<open>
  \<open>obj[name] = data\<close> on an object created by \<open>{}\<close>, as the map of its own
  properties: the key \<open>__proto__\<close> is the prototype setter and adds no property.
\<close>

definition setProperty :: "(string \<rightharpoonup> bytes) \<Rightarrow> string \<Rightarrow> bytes \<Rightarrow> (string \<rightharpoonup> bytes)" where
  "setProperty obj name data = (if name = ''__proto__'' then obj else obj(name \<mapsto> data))"

text \<open>
  The loop over \<open>criticalBuffer\<close> and, with the same body, over \<open>extensionsBuffer\<close>;
  \<open>opts\<close> is the object being filled. A \<open>NaN\<close> name length gives the empty name, and
  then the data length read at \<open>NaN\<close> is \<open>NaN\<close> too; a \<open>NaN\<close> data length gives empty
  data. In both cases the entry is stored and the loop ends.
\<close>

function parseOptions :: "bytes \<Rightarrow> nat \<Rightarrow> (string \<rightharpoonup> bytes) \<Rightarrow> (string \<rightharpoonup> bytes)" where
  "parseOptions buf cPos opts =
     (if cPos < length buf then
        (case readUInt32BE buf cPos of
           None \<Rightarrow>
             setProperty opts (toString_utf8 (slice_buffer buf (cPos + 4) 0))
               (slice_buffer buf 0 0)
         | Some nameLen \<Rightarrow>
             (let name = toString_utf8 (slice_buffer buf (cPos + 4) (cPos + 4 + nameLen));
                  cPos2 = cPos + 4 + nameLen
              in case readUInt32BE buf cPos2 of
                   None \<Rightarrow> setProperty opts name (slice_buffer buf (cPos2 + 4) 0)
                 | Some dataLen \<Rightarrow>
                     parseOptions buf (cPos2 + 4 + dataLen)
                       (setProperty opts name
                          (slice_buffer buf (cPos2 + 4) (cPos2 + 4 + dataLen)))))
      else opts)"
  by pat_completeness auto
termination
  by (relation "measure (\<lambda>(b, p, m). length b - p)") auto

text \<open>Steps 3-4: the key-specific fields are read and dropped, or the type is refused.\<close>

definition skipKeyFields :: "bytes \<Rightarrow> nat \<Rightarrow> string \<Rightarrow> (error + nat) completion" where
  "skipKeyFields certBuffer pos typeStr =
     (if startsWith typeStr ''ssh-rsa'' then
        cbind (readString certBuffer pos) (\<lambda>(e, pos).
        cbind (readString certBuffer pos) (\<lambda>(n, pos). Returns (Inr pos)))
      else if startsWith typeStr ''ecdsa-sha2-nistp'' then
        cbind (readString certBuffer pos) (\<lambda>(curve, pos).
        cbind (readString certBuffer pos) (\<lambda>(q, pos). Returns (Inr pos)))
      else if startsWith typeStr ''ssh-ed25519'' then
        cbind (readString certBuffer pos) (\<lambda>(pk, pos). Returns (Inr pos))
      else if startsWith typeStr ''ssh-dss'' then
        cbind (readString certBuffer pos) (\<lambda>(p, pos).
        cbind (readString certBuffer pos) (\<lambda>(q, pos).
        cbind (readString certBuffer pos) (\<lambda>(g, pos).
        cbind (readString certBuffer pos) (\<lambda>(y, pos). Returns (Inr pos)))))
      else Returns (Inl (Error (''Unsupported certificate type: '' @ typeStr))))"

text \<open>Steps 5-15, from the serial to the signature.\<close>

definition parseFromSerial ::
  "bytes \<Rightarrow> nat \<Rightarrow> string \<Rightarrow> bytes \<Rightarrow> (error + certificate) completion" where
  "parseFromSerial certBuffer pos typeStr nonce_v =
     cbind (readUInt64 certBuffer pos) (\<lambda>(serial_v, pos).
     cbind (readUInt32 certBuffer pos) (\<lambda>(typeNum, pos).
     cbind (readString certBuffer pos) (\<lambda>(keyIdBuffer, pos).
     cbind (readString certBuffer pos) (\<lambda>(principalsBuffer, pos).
     cbind (readUInt64 certBuffer pos) (\<lambda>(validAfter_v, pos).
     cbind (readUInt64 certBuffer pos) (\<lambda>(validBefore_v, pos).
     cbind (readString certBuffer pos) (\<lambda>(criticalBuffer, pos).
     cbind (readString certBuffer pos) (\<lambda>(extensionsBuffer, pos).
     cbind (readString certBuffer pos) (\<lambda>(reserved, pos).
     cbind (readString certBuffer pos) (\<lambda>(signatureKeyBlob_v, pos).
     cbind (readString certBuffer pos) (\<lambda>(signature_v, pos).
       Returns (Inr \<lparr>
         type = typeStr,
         nonce = nonce_v,
         serial = serial_v,
         certType = (if typeNum = 1 then User else if typeNum = 2 then Host else Unknown),
         keyId = toString_utf8 keyIdBuffer,
         principals = (if length principalsBuffer > 0
                       then parsePrincipals principalsBuffer 0 else []),
         validAfter = validAfter_v,
         validBefore = validBefore_v,
         criticalOptions = (if length criticalBuffer > 0
                            then parseOptions criticalBuffer 0 Map.empty else Map.empty),
         extensions = (if length extensionsBuffer > 0
                       then parseOptions extensionsBuffer 0 Map.empty else Map.empty),
         signatureKeyBlob = signatureKeyBlob_v,
         signature = signature_v\<rparr>))))))))))))"

text \<open>The body of the \<open>try\<close> block.\<close>

definition parseBody :: "bytes \<Rightarrow> (error + certificate) completion" where
  "parseBody certBuffer =
     cbind (readString certBuffer 0) (\<lambda>(typeBuffer, pos).
     cbind (readString certBuffer pos) (\<lambda>(nonce_v, pos).
     cbind (skipKeyFields certBuffer pos (toString_utf8 typeBuffer)) (\<lambda>r.
       case r of
         Inl err \<Rightarrow> Returns (Inl err)
       | Inr pos \<Rightarrow> parseFromSerial certBuffer pos (toString_utf8 typeBuffer) nonce_v)))"

text \<open>
  The function returns either an Error object (\<open>Inl\<close>) or the certificate (\<open>Inr\<close>); the
  \<open>catch\<close> turns every throw of the body into a returned Error.
\<close>

definition parseSSHCertificate :: "js_value \<Rightarrow> (error + certificate) completion" where
  "parseSSHCertificate v =
     (case v of
        JBuffer certBuffer \<Rightarrow>
          if length certBuffer < 8 then Returns (Inl (Error ''Invalid certificate buffer''))
          else try_catch (parseBody certBuffer) (\<lambda>err. Returns (Inl err))
      | _ \<Rightarrow> Returns (Inl (Error ''Invalid certificate buffer'')))"

section \<open>isCertificate\<close>

text \<open>
  With a \<open>NaN\<close> length both comparisons of the second guard are false and the slice
  ends at 0.
\<close>

definition isCertificate :: "js_value \<Rightarrow> bool completion" where
  "isCertificate v =
     (case v of
        JBuffer data \<Rightarrow>
          if length data < 16 then Returns False
          else try_catch
            (if length data < 4 then Returns False
             else case readUInt32BE data 0 of
               None \<Rightarrow>
                 Returns (includes_str (toString_utf8 (slice_buffer data 4 0)) ''-cert-v'')
             | Some len \<Rightarrow>
                 if len > 64 \<or> length data < 4 + len then Returns False
                 else Returns (includes_str (toString_utf8 (slice_buffer data 4 (4 + len)))
                                ''-cert-v''))
            (\<lambda>err. Returns False)
      | _ \<Rightarrow> Returns False)"

section \<open>CertificateKey\<close>

text \<open>
  Modelled from the spec: the base key objects come from the key parser, which is not
  among the sources. The spec gives a base key \<open>sign(data, algorithmHint)\<close>,
  \<open>verify(data, signature, algorithmHint)\<close>, \<open>isPrivateKey()\<close>,
  \<open>getPublicSSH(algorithmHint)\<close> and an optional \<open>getPublicPEM()\<close>. The wrapper calls
  the last two with \<open>?.\<close>, so each may be absent (\<open>None\<close>). An omitted algorithm hint
  is \<open>None\<close>.
\<close>

record BaseKey =
  key_type :: string
  comment :: string
  isPrivateKey :: bool
  getPublicPEM :: "bytes option"
  getPublicSSH :: "(string option \<Rightarrow> bytes) option"
  sign :: "bytes \<Rightarrow> string option \<Rightarrow> bytes"
  verify :: "bytes \<Rightarrow> bytes \<Rightarrow> string option \<Rightarrow> bool"

text \<open>What a caller may pass as the key.\<close>

datatype js_key = KeyObject BaseKey | KeyUndefined | KeyNull

record CertificateKey =
  baseKey :: BaseKey
  parsedCertificate :: certificate
  certBuffer :: bytes
  ck_type :: string
  ck_comment :: string

text \<open>
  The constructor reads \<open>baseKey.type\<close> first; on \<open>undefined\<close> or \<open>null\<close> that read
  throws a TypeError.
\<close>

definition new_CertificateKey ::
  "js_key \<Rightarrow> certificate \<Rightarrow> bytes \<Rightarrow> CertificateKey completion" where
  "new_CertificateKey key cert buf =
     (case key of
        KeyObject k \<Rightarrow>
          Returns \<lparr>baseKey = k, parsedCertificate = cert, certBuffer = buf,
                   ck_type = key_type k, ck_comment = comment k\<rparr>
      | KeyUndefined \<Rightarrow>
          Throws (TypeError ''Cannot read properties of undefined (reading 'type')'')
      | KeyNull \<Rightarrow>
          Throws (TypeError ''Cannot read properties of null (reading 'type')''))"

definition CertificateKey_isPrivateKey :: "CertificateKey \<Rightarrow> bool" where
  "CertificateKey_isPrivateKey this = isPrivateKey (baseKey this)"

text \<open>A call through \<open>?.\<close> gives \<open>undefined\<close> (\<open>None\<close>) when the method is absent.\<close>

definition CertificateKey_getPublicPEM :: "CertificateKey \<Rightarrow> bytes option" where
  "CertificateKey_getPublicPEM this = getPublicPEM (baseKey this)"

definition CertificateKey_getPublicSSH :: "CertificateKey \<Rightarrow> string option \<Rightarrow> bytes option" where
  "CertificateKey_getPublicSSH this algo =
     (case getPublicSSH (baseKey this) of None \<Rightarrow> None | Some m \<Rightarrow> Some (m algo))"

definition CertificateKey_sign :: "CertificateKey \<Rightarrow> bytes \<Rightarrow> string option \<Rightarrow> bytes" where
  "CertificateKey_sign this data algo = sign (baseKey this) data algo"

definition CertificateKey_verify ::
  "CertificateKey \<Rightarrow> bytes \<Rightarrow> bytes \<Rightarrow> string option \<Rightarrow> bool" where
  "CertificateKey_verify this data sig algo = verify (baseKey this) data sig algo"

definition CertificateKey_getCertificate :: "CertificateKey \<Rightarrow> certificate" where
  "CertificateKey_getCertificate this = parsedCertificate this"

definition CertificateKey_getCertificateBuffer :: "CertificateKey \<Rightarrow> bytes" where
  "CertificateKey_getCertificateBuffer this = certBuffer this"

section \<open>wrapKeyWithCertificate and extractCertificateFromData\<close>

text \<open>
  The result of \<open>wrapKeyWithCertificate(key, certBuffer)\<close>: an Error object or the
  wrapper.
\<close>

definition wrapResult :: "js_key \<Rightarrow> js_value \<Rightarrow> (error + CertificateKey) completion" where
  "wrapResult key v =
     (case v of
        JBuffer buf \<Rightarrow>
          try_catch
            (cbind (isCertificate v) (\<lambda>ok.
               if \<not> ok then Returns (Inl (Error ''Buffer does not appear to be a certificate''))
               else
                 cbind (parseSSHCertificate v) (\<lambda>parsed.
                   case parsed of
                     Inl err \<Rightarrow> Returns (Inl err)
                   | Inr cert \<Rightarrow> cbind (new_CertificateKey key cert buf) (\<lambda>ck. Returns (Inr ck)))))
            (\<lambda>err. Returns (Inl err))
      | _ \<Rightarrow> Returns (Inl (Error ''Certificate must be a Buffer'')))"

text \<open>
  The call, with the key as it is afterwards: no statement of the function or of the
  constructor assigns to the key or calls one of its methods.
\<close>

definition wrapKeyWithCertificate ::
  "js_key \<Rightarrow> js_value \<Rightarrow> (error + CertificateKey) completion \<times> js_key" where
  "wrapKeyWithCertificate key v = (wrapResult key v, key)"

datatype extracted = ExtractedError error | ExtractedNull | Extracted bytes

definition extractCertificateFromData :: "js_value \<Rightarrow> extracted completion" where
  "extractCertificateFromData v =
     (case v of
        JBuffer data \<Rightarrow>
          cbind (isCertificate v) (\<lambda>ok.
            if \<not> ok then Returns ExtractedNull
            else try_catch (Returns (Extracted data)) (\<lambda>err. Returns (ExtractedError err)))
      | _ \<Rightarrow> Returns (ExtractedError (Error ''Data must be a Buffer'')))"

section \<open>The specification's key-material table\<close>

text \<open>
  Section 4.2 of the specification, in its words: \<open>ssh-rsa*\<close> skips 2 fields,
  \<open>ecdsa-sha2-nistp*\<close> 2, \<open>ssh-ed25519*\<close> 1, \<open>ssh-dss*\<close> 4, anything else is an
  unsupported key type. \<open>spec_skipFields k\<close> reads \<open>k\<close> length-prefixed fields in a row
  and drops them.
\<close>

definition spec_keyMaterialFields :: "string \<Rightarrow> nat option" where
  "spec_keyMaterialFields identifier =
     (if startsWith identifier ''ssh-rsa'' then Some 2
      else if startsWith identifier ''ecdsa-sha2-nistp'' then Some 2
      else if startsWith identifier ''ssh-ed25519'' then Some 1
      else if startsWith identifier ''ssh-dss'' then Some 4
      else None)"

fun spec_skipFields :: "nat \<Rightarrow> bytes \<Rightarrow> nat \<Rightarrow> nat completion" where
  "spec_skipFields 0 buf pos = Returns pos"
| "spec_skipFields (Suc k) buf pos =
     cbind (readString buf pos) (\<lambda>(field, pos). spec_skipFields k buf pos)"

section \<open>Test vectors\<close>

text \<open>\<open>Buffer.from(text)\<close>: the UTF-8 bytes of a string.\<close>

definition Buffer_from :: "string \<Rightarrow> bytes" where
  "Buffer_from s = map of_char s"

text \<open>
  An \<open>ssh-ed25519-cert-v01@openssh.com\<close> blob with empty nonce and public key, serial 7,
  type 1 (user), key id \<open>k\<close>, no critical options, empty reserved field, signature key
  and signature. The principals, validity and extensions fields are the arguments, each as
  it stands on the wire.
\<close>

definition ed25519_cert_blob :: "bytes \<Rightarrow> bytes \<Rightarrow> bytes \<Rightarrow> bytes \<Rightarrow> bytes" where
  "ed25519_cert_blob principalsField validAfterField validBeforeField extensionsField =
     [0, 0, 0, 32] @ Buffer_from ''ssh-ed25519-cert-v01@openssh.com''
     @ [0, 0, 0, 0]
     @ [0, 0, 0, 0]
     @ [0, 0, 0, 0, 0, 0, 0, 7]
     @ [0, 0, 0, 1]
     @ [0, 0, 0, 1] @ Buffer_from ''k''
     @ principalsField
     @ validAfterField
     @ validBeforeField
     @ [0, 0, 0, 0]
     @ extensionsField
     @ [0, 0, 0, 0]
     @ [0, 0, 0, 0]
     @ [0, 0, 0, 0]"

text \<open>Principal \<open>admin\<close>, valid from 1000 until 2000, extension \<open>permit-pty\<close>.\<close>

definition sample_cert_blob :: bytes where
  "sample_cert_blob =
     ed25519_cert_blob ([0, 0, 0, 9] @ [0, 0, 0, 5] @ Buffer_from ''admin'')
       [0, 0, 0, 0, 0, 0, 3, 232] [0, 0, 0, 0, 0, 0, 7, 208]
       ([0, 0, 0, 18] @ [0, 0, 0, 10] @ Buffer_from ''permit-pty'' @ [0, 0, 0, 0])"

definition sample_cert :: certificate where
  "sample_cert = \<lparr>type = ''ssh-ed25519-cert-v01@openssh.com'', nonce = [], serial = 7,
     certType = User, keyId = ''k'', principals = [''admin''], validAfter = 1000,
     validBefore = 2000, criticalOptions = Map.empty,
     extensions = [''permit-pty'' \<mapsto> []], signatureKeyBlob = [], signature = []\<rparr>"

text \<open>
  The principals field is 5 bytes long; the length prefix inside it announces 5 bytes
  where 1 remains.
\<close>

definition clamped_principal_blob :: bytes where
  "clamped_principal_blob =
     ed25519_cert_blob ([0, 0, 0, 5] @ [0, 0, 0, 5] @ Buffer_from ''a'')
       [0, 0, 0, 0, 0, 0, 3, 232] [0, 0, 0, 0, 0, 0, 7, 208] [0, 0, 0, 0]"

text \<open>No principals, and both ends of the validity window 0.\<close>

definition zero_window_blob :: bytes where
  "zero_window_blob =
     ed25519_cert_blob [0, 0, 0, 0]
       [0, 0, 0, 0, 0, 0, 0, 0] [0, 0, 0, 0, 0, 0, 0, 0] [0, 0, 0, 0]"

definition zero_window_cert :: certificate where
  "zero_window_cert = \<lparr>type = ''ssh-ed25519-cert-v01@openssh.com'', nonce = [], serial = 7,
     certType = User, keyId = ''k'', principals = [], validAfter = 0, validBefore = 0,
     criticalOptions = Map.empty, extensions = Map.empty, signatureKeyBlob = [],
     signature = []\<rparr>"

text \<open>The certificate object of the module's own principal test, with fixed times.\<close>

definition admin_root_cert :: certificate where
  "admin_root_cert = \<lparr>type = ''ssh-ed25519-cert-v01@openssh.com'', nonce = [], serial = 7,
     certType = User, keyId = ''k'', principals = [''admin'', ''root''], validAfter = 1000,
     validBefore = 2000, criticalOptions = Map.empty, extensions = Map.empty,
     signatureKeyBlob = [], signature = []\<rparr>"

text \<open>Eleven bytes: a length prefix of 7 and the text \<open>-cert-v\<close>.\<close>

definition short_cert_blob :: bytes where
  "short_cert_blob = [0, 0, 0, 7] @ Buffer_from ''-cert-v''"

text \<open>Sixteen bytes: the identifier \<open>x-cert-v\<close> and an empty nonce.\<close>

definition unsupported_cert_blob :: bytes where
  "unsupported_cert_blob = [0, 0, 0, 8] @ Buffer_from ''x-cert-v'' @ [0, 0, 0, 0]"

text \<open>Eight bytes: the identifier \<open>abcd\<close> and nothing after it.\<close>

definition truncated_nonce_blob :: bytes where
  "truncated_nonce_blob = [0, 0, 0, 4] @ Buffer_from ''abcd''"

definition sample_key :: BaseKey where
  "sample_key = \<lparr>key_type = ''ssh-ed25519'', comment = ''test key'', isPrivateKey = True,
     getPublicPEM = None, getPublicSSH = Some (\<lambda>algo. [1, 2, 3]),
     sign = (\<lambda>data algo. rev data), verify = (\<lambda>data sig algo. sig = rev data)\<rparr>"

definition sample_certificate_key :: CertificateKey where
  "sample_certificate_key = \<lparr>baseKey = sample_key, parsedCertificate = sample_cert,
     certBuffer = sample_cert_blob, ck_type = ''ssh-ed25519'', ck_comment = ''test key''\<rparr>"

section \<open>Basic facts\<close>

text \<open>
  The two loops are unfolded on demand only. \<open>buffer_eval\<close> and \<open>parse_eval\<close> are the
  equations that evaluate the primitives and the parser on a concrete Buffer.
\<close>

declare parsePrincipals.simps [simp del] parseOptions.simps [simp del]

lemmas buffer_eval = slice_buffer_def readUInt32BE_def bigUInt64BE_def toString_utf8_def
  char_of_def bit_Suc_0_iff startsWith_def Buffer_from_def ed25519_cert_blob_def

lemmas parse_eval = parseSSHCertificate_def parseBody_def parseFromSerial_def skipKeyFields_def
  cbind_def try_catch_def readString_def readUInt64_def readUInt32_def
  parsePrincipals.simps parseOptions.simps setProperty_def

subsection \<open>Strings\<close>

lemma startsWith_iff: "startsWith s p \<longleftrightarrow> (\<exists>b. s = p @ b)"
  unfolding startsWith_def
  by (metis append_eq_conv_conj append_take_drop_id)

lemma includes_str_iff: "includes_str s p \<longleftrightarrow> (\<exists>a b. s = a @ p @ b)"
proof (induction s)
  case Nil
  then show ?case by simp
next
  case (Cons c cs)
  have "(\<exists>a b. c # cs = a @ p @ b) \<longleftrightarrow> (\<exists>b. c # cs = p @ b) \<or> (\<exists>a b. cs = a @ p @ b)"
  proof
    assume "\<exists>a b. c # cs = a @ p @ b"
    then obtain a b where ab: "c # cs = a @ p @ b" by blast
    show "(\<exists>b. c # cs = p @ b) \<or> (\<exists>a b. cs = a @ p @ b)"
    proof (cases a)
      case Nil
      with ab show ?thesis by auto
    next
      case (Cons x a')
      with ab have "cs = a' @ p @ b" by simp
      then show ?thesis by blast
    qed
  next
    assume "(\<exists>b. c # cs = p @ b) \<or> (\<exists>a b. cs = a @ p @ b)"
    then show "\<exists>a b. c # cs = a @ p @ b"
    proof
      assume "\<exists>b. c # cs = p @ b"
      then obtain b where "c # cs = [] @ p @ b" by auto
      then show ?thesis by blast
    next
      assume "\<exists>a b. cs = a @ p @ b"
      then obtain a b where "c # cs = (c # a) @ p @ b" by auto
      then show ?thesis by blast
    qed
  qed
  with Cons show ?case by (simp add: startsWith_iff)
qed

subsection \<open>Sequencing\<close>

lemma cbind_Returns_iff:
  "cbind c f = Returns r \<longleftrightarrow> (\<exists>v. c = Returns v \<and> f v = Returns r)"
  by (cases c) (simp_all add: cbind_def)

lemma cbind_Throws_iff:
  "cbind c f = Throws e \<longleftrightarrow> c = Throws e \<or> (\<exists>v. c = Returns v \<and> f v = Throws e)"
  by (cases c) (simp_all add: cbind_def)

lemma cbind_mono_Returns:
  assumes "cbind c f = Returns r"
    and "\<And>v. c = Returns v \<Longrightarrow> c' = Returns v"
    and "\<And>v. c = Returns v \<Longrightarrow> f v = Returns r \<Longrightarrow> f' v = Returns r"
  shows "cbind c' f' = Returns r"
  using assms by (cases c) (auto simp: cbind_def)

subsection \<open>The readers on the certificate buffer\<close>

text \<open>
  A read that returns lies inside the buffer: the cursor never passes the end, and the
  bytes returned are the bytes at the cursor. A read that throws throws the one error.
\<close>

lemma slice_buffer_append:
  "stop \<le> length buf \<Longrightarrow> slice_buffer (buf @ ex) start stop = slice_buffer buf start stop"
  by (simp add: slice_buffer_def)

lemma readUInt32BE_append:
  "offset + 4 \<le> length buf \<Longrightarrow> readUInt32BE (buf @ ex) offset = readUInt32BE buf offset"
  by (simp add: readUInt32BE_def nth_append)

lemma readString_Returns_iff:
  "readString buf pos = Returns (s, pos') \<longleftrightarrow>
     (\<exists>len. pos + 4 \<le> length buf \<and> readUInt32BE buf pos = Some len \<and> pos + 4 + len \<le> length buf
        \<and> s = slice_buffer buf (pos + 4) (pos + 4 + len) \<and> pos' = pos + 4 + len)"
  by (auto simp: readString_def split: option.splits)

lemma readString_Throws:
  "readString buf pos = Throws e \<Longrightarrow> e = Error ''Unexpected end of certificate''"
  by (auto simp: readString_def split: option.splits if_splits)

lemma readString_in_bounds:
  "readString buf pos = Returns (s, pos') \<Longrightarrow>
     pos' \<le> length buf \<and> pos' = pos + 4 + length s \<and> s = take (length s) (drop (pos + 4) buf)"
  by (auto simp: readString_Returns_iff slice_buffer_def)

lemma readString_append:
  "readString buf pos = Returns r \<Longrightarrow> readString (buf @ ex) pos = Returns r"
  by (cases r) (auto simp: readString_Returns_iff readUInt32BE_append slice_buffer_append)

lemma readUInt64_append:
  "readUInt64 buf pos = Returns r \<Longrightarrow> readUInt64 (buf @ ex) pos = Returns r"
  by (auto simp: readUInt64_def slice_buffer_append split: if_splits)

lemma readUInt32_append:
  "readUInt32 buf pos = Returns r \<Longrightarrow> readUInt32 (buf @ ex) pos = Returns r"
  by (auto simp: readUInt32_def readUInt32BE_append split: if_splits option.splits)

lemma readUInt64_Throws:
  "readUInt64 buf pos = Throws e \<Longrightarrow> e = Error ''Unexpected end of certificate''"
  by (auto simp: readUInt64_def split: if_splits)

lemma readUInt32_Throws:
  "readUInt32 buf pos = Throws e \<Longrightarrow> e = Error ''Unexpected end of certificate''"
  by (auto simp: readUInt32_def split: if_splits option.splits)

lemma readString_truncated:
  assumes "length buf < pos + 4 \<or> (\<exists>len. readUInt32BE buf pos = Some len \<and> length buf < pos + 4 + len)"
  shows "readString buf pos = Throws (Error ''Unexpected end of certificate'')"
  using assms by (auto simp: readString_def split: option.splits)

lemma readUInt64_in_bounds:
  "readUInt64 buf pos = Returns (n, pos') \<Longrightarrow> pos' = pos + 8 \<and> pos' \<le> length buf"
  by (auto simp: readUInt64_def split: if_splits)

lemma readUInt32_in_bounds:
  "readUInt32 buf pos = Returns (n, pos') \<Longrightarrow> pos' = pos + 4 \<and> pos' \<le> length buf"
  by (auto simp: readUInt32_def split: if_splits option.splits)

subsection \<open>The loop over the principals\<close>

text \<open>
  The loop has no such guard. When the first length prefix announces more bytes than
  remain, \<open>slice\<close> gives the bytes that are there, and the loop ends with this one
  principal.
\<close>

lemma parsePrincipals_clamps:
  assumes "readUInt32BE principalsBuffer 0 = Some len" and "length principalsBuffer < 4 + len"
  shows "parsePrincipals principalsBuffer 0 = [toString_utf8 (drop 4 principalsBuffer)]"
proof -
  from assms have "0 < length principalsBuffer"
    by (auto simp: readUInt32BE_def split: if_splits)
  with assms show ?thesis
    by (simp add: parsePrincipals.simps [of principalsBuffer 0]
        parsePrincipals.simps [of principalsBuffer "4 + len"] slice_buffer_def)
qed

subsection \<open>The key-specific fields\<close>

lemma spec_skipFields_numerals:
  "spec_skipFields 1 buf pos = cbind (readString buf pos) (\<lambda>(f, pos). Returns pos)"
  "spec_skipFields 2 buf pos =
     cbind (readString buf pos) (\<lambda>(f, pos). cbind (readString buf pos) (\<lambda>(f, pos). Returns pos))"
  "spec_skipFields 4 buf pos =
     cbind (readString buf pos) (\<lambda>(f, pos). cbind (readString buf pos) (\<lambda>(f, pos).
     cbind (readString buf pos) (\<lambda>(f, pos). cbind (readString buf pos) (\<lambda>(f, pos). Returns pos))))"
  by (simp_all add: numeral_eq_Suc cbind_def split: completion.splits prod.splits)

lemma skipKeyFields_eq:
  "skipKeyFields buf pos t =
     (case spec_keyMaterialFields t of
        None \<Rightarrow> Returns (Inl (Error (''Unsupported certificate type: '' @ t)))
      | Some k \<Rightarrow> cbind (spec_skipFields k buf pos) (\<lambda>pos. Returns (Inr pos)))"
  by (simp add: skipKeyFields_def spec_keyMaterialFields_def spec_skipFields_numerals
      cbind_def split: completion.splits prod.splits)

lemma spec_skipFields_append:
  "spec_skipFields k buf pos = Returns r \<Longrightarrow> spec_skipFields k (buf @ ex) pos = Returns r"
proof (induction k arbitrary: pos)
  case 0
  then show ?case by simp
next
  case (Suc k)
  from Suc.prems obtain s p where rd: "readString buf pos = Returns (s, p)"
    and rest: "spec_skipFields k buf p = Returns r"
    by (auto simp: cbind_Returns_iff)
  from rd have "readString (buf @ ex) pos = Returns (s, p)" by (rule readString_append)
  moreover from rest have "spec_skipFields k (buf @ ex) p = Returns r" by (rule Suc.IH)
  ultimately show ?case by (simp add: cbind_def)
qed

lemma skipKeyFields_append:
  "skipKeyFields buf pos t = Returns r \<Longrightarrow> skipKeyFields (buf @ ex) pos t = Returns r"
  unfolding skipKeyFields_eq
  by (auto simp: cbind_Returns_iff split: option.splits dest: spec_skipFields_append)

lemma parseFromSerial_append:
  "parseFromSerial buf pos t n = Returns r \<Longrightarrow> parseFromSerial (buf @ ex) pos t n = Returns r"
  unfolding parseFromSerial_def
  apply (erule cbind_mono_Returns, erule readUInt64_append, clarsimp split del: if_split)
  apply (erule cbind_mono_Returns, erule readUInt32_append, clarsimp split del: if_split)
  apply (erule cbind_mono_Returns, erule readString_append, clarsimp split del: if_split)
  apply (erule cbind_mono_Returns, erule readString_append, clarsimp split del: if_split)
  apply (erule cbind_mono_Returns, erule readUInt64_append, clarsimp split del: if_split)
  apply (erule cbind_mono_Returns, erule readUInt64_append, clarsimp split del: if_split)
  apply (erule cbind_mono_Returns, erule readString_append, clarsimp split del: if_split)
  apply (erule cbind_mono_Returns, erule readString_append, clarsimp split del: if_split)
  apply (erule cbind_mono_Returns, erule readString_append, clarsimp split del: if_split)
  apply (erule cbind_mono_Returns, erule readString_append, clarsimp split del: if_split)
  apply (erule cbind_mono_Returns, erule readString_append, clarsimp split del: if_split)
  done

lemma parseBody_append:
  "parseBody buf = Returns r \<Longrightarrow> parseBody (buf @ ex) = Returns r"
  unfolding parseBody_def
  apply (erule cbind_mono_Returns, erule readString_append, clarsimp split del: if_split)
  apply (erule cbind_mono_Returns, erule readString_append, clarsimp split del: if_split)
  apply (erule cbind_mono_Returns, erule skipKeyFields_append)
  apply (auto split: sum.splits dest: parseFromSerial_append)
  done

lemma spec_skipFields_Throws:
  "spec_skipFields k buf pos = Throws e \<Longrightarrow> e = Error ''Unexpected end of certificate''"
proof (induction k arbitrary: pos)
  case 0
  then show ?case by simp
next
  case (Suc k)
  then show ?case
    by (auto simp: cbind_Throws_iff dest: readString_Throws)
qed

lemma parseFromSerial_Throws:
  "parseFromSerial buf pos t n = Throws e \<Longrightarrow> e = Error ''Unexpected end of certificate''"
  unfolding parseFromSerial_def
  by (auto simp: cbind_Throws_iff split del: if_split
      dest: readString_Throws readUInt64_Throws readUInt32_Throws)

lemma parseFromSerial_Returns:
  "parseFromSerial buf pos t n = Returns r \<Longrightarrow> \<exists>c. r = Inr c"
  unfolding parseFromSerial_def
  by (auto simp: cbind_Returns_iff split del: if_split)

lemma parseSSHCertificate_after_nonce:
  assumes "readString buf 0 = Returns (typeBuffer, p1)"
    and "readString buf p1 = Returns (nonce_v, p2)"
  shows "parseSSHCertificate (JBuffer buf) =
     (case spec_keyMaterialFields (toString_utf8 typeBuffer) of
        None \<Rightarrow> Returns (Inl (Error (''Unsupported certificate type: '' @ toString_utf8 typeBuffer)))
      | Some k \<Rightarrow>
         (case spec_skipFields k buf p2 of
            Throws e \<Rightarrow> Returns (Inl e)
          | Returns p3 \<Rightarrow>
              try_catch (parseFromSerial buf p3 (toString_utf8 typeBuffer) nonce_v)
                (\<lambda>err. Returns (Inl err))))"
proof -
  from assms have "p2 \<le> length buf" "8 \<le> p2"
    by (auto dest!: readString_in_bounds)
  then have "\<not> length buf < 8" by simp
  with assms show ?thesis
    by (simp add: parseSSHCertificate_def parseBody_def skipKeyFields_eq cbind_def try_catch_def
        split: option.splits completion.splits sum.splits)
qed

subsection \<open>The 64-bit fields\<close>

text \<open>In a decoded certificate the serial and both ends of the validity window are 64-bit unsigned.\<close>

lemma bigUInt64BE_range: "0 \<le> bigUInt64BE bs \<and> bigUInt64BE bs < 256 ^ length bs"
proof (induction bs rule: rev_induct)
  case Nil
  then show ?case by (simp add: bigUInt64BE_def)
next
  case (snoc b bs)
  have step: "bigUInt64BE (bs @ [b]) = bigUInt64BE bs * 256 + uint b"
    by (simp add: bigUInt64BE_def)
  have b: "0 \<le> uint b" "uint b < 256"
    using uint_bounded [of b] by simp_all
  from snoc have "bigUInt64BE bs + 1 \<le> 256 ^ length bs" by simp
  then have "(bigUInt64BE bs + 1) * 256 \<le> 256 ^ length bs * 256"
    by (rule mult_right_mono) simp
  with snoc b show ?case
    unfolding step by (simp add: algebra_simps)
qed

lemma readUInt64_range:
  assumes "readUInt64 buf pos = Returns (n, pos')"
  shows "0 \<le> n \<and> n < 2 ^ 64"
proof -
  from assms have n: "n = bigUInt64BE (slice_buffer buf pos (pos + 8))"
    and len: "length (slice_buffer buf pos (pos + 8)) = 8"
    by (auto simp: readUInt64_def slice_buffer_def split: if_splits)
  from bigUInt64BE_range [of "slice_buffer buf pos (pos + 8)"] show ?thesis
    unfolding n len by simp
qed


lemma parseFromSerial_uint64_fields:
  assumes "parseFromSerial buf pos t n = Returns (Inr c)"
  shows "0 \<le> serial c \<and> serial c < 2 ^ 64 \<and> 0 \<le> validAfter c \<and> validAfter c < 2 ^ 64
    \<and> 0 \<le> validBefore c \<and> validBefore c < 2 ^ 64"
  using assms unfolding parseFromSerial_def
  by (auto simp: cbind_Returns_iff split del: if_split dest: readUInt64_range)

lemma parsed_uint64_fields:
  assumes "parseSSHCertificate v = Returns (Inr c)"
  shows "0 \<le> serial c \<and> serial c < 2 ^ 64 \<and> 0 \<le> validAfter c \<and> validAfter c < 2 ^ 64
    \<and> 0 \<le> validBefore c \<and> validBefore c < 2 ^ 64"
proof -
  from assms obtain buf where v: "v = JBuffer buf" and body: "parseBody buf = Returns (Inr c)"
    by (cases v; cases "parseBody (case v of JBuffer b \<Rightarrow> b | _ \<Rightarrow> [])")
      (auto simp: parseSSHCertificate_def try_catch_def split: if_splits)
  from body obtain t n r where
    "(case r of Inl err \<Rightarrow> Returns (Inl err) | Inr pos \<Rightarrow> parseFromSerial buf pos t n)
       = Returns (Inr c)"
    unfolding parseBody_def by (auto simp: cbind_Returns_iff)
  then obtain pos where "parseFromSerial buf pos t n = Returns (Inr c)"
    by (cases r) simp_all
  then show ?thesis by (rule parseFromSerial_uint64_fields)
qed

subsection \<open>No top-level function throws\<close>

lemma isCertificate_Returns: "\<exists>b. isCertificate v = Returns b"
  by (auto simp: isCertificate_def try_catch_def split: js_value.splits option.splits)

lemma parseSSHCertificate_Returns: "\<exists>r. parseSSHCertificate v = Returns r"
proof (cases v)
  case (JBuffer buf)
  then show ?thesis
    by (cases "parseBody buf") (simp_all add: parseSSHCertificate_def try_catch_def)
qed (simp_all add: parseSSHCertificate_def)

lemma wrapResult_Returns: "\<exists>r. wrapResult key v = Returns r"
proof (cases v)
  case (JBuffer buf)
  show ?thesis
    unfolding wrapResult_def JBuffer js_value.case try_catch_def
    by (simp split: completion.splits)
qed (simp_all add: wrapResult_def)

subsection \<open>The test vectors, evaluated\<close>

lemma sample_cert_blob_parses:
  "parseSSHCertificate (JBuffer sample_cert_blob) = Returns (Inr sample_cert)"
  by (simp add: sample_cert_blob_def sample_cert_def parse_eval buffer_eval)

lemma sample_cert_blob_isCertificate:
  "isCertificate (JBuffer sample_cert_blob) = Returns True"
  by (simp add: sample_cert_blob_def isCertificate_def try_catch_def buffer_eval)

lemma unsupported_cert_blob_isCertificate:
  "isCertificate (JBuffer unsupported_cert_blob) = Returns True"
  by (simp add: unsupported_cert_blob_def isCertificate_def try_catch_def buffer_eval)

lemma unsupported_cert_blob_parse:
  "parseSSHCertificate (JBuffer unsupported_cert_blob)
     = Returns (Inl (Error ''Unsupported certificate type: x-cert-v''))"
  by (simp add: unsupported_cert_blob_def parse_eval buffer_eval)

lemma short_cert_blob_isCertificate:
  "isCertificate (JBuffer short_cert_blob) = Returns False"
  by (simp add: short_cert_blob_def isCertificate_def Buffer_from_def)

lemma sample_wrap:
  "fst (wrapKeyWithCertificate (KeyObject sample_key) (JBuffer sample_cert_blob))
     = Returns (Inr sample_certificate_key)"
  by (simp add: wrapKeyWithCertificate_def wrapResult_def cbind_def try_catch_def
      new_CertificateKey_def sample_cert_blob_isCertificate sample_cert_blob_parses
      sample_certificate_key_def sample_key_def)

section \<open>The decoder's bound checks\<close>

text \<open>
  Claim C1: every field read of \<open>parseSSHCertificate\<close> checks the remaining length first
  and fails on a shortfall, also for a length prefix inside the principals,
  critical-options or extensions field. The reads on the certificate buffer do
  (\<open>readString_in_bounds\<close>, \<open>readString_truncated\<close>). The loops over the three
  sub-fields do not: they call \<open>readUInt32BE\<close> and \<open>slice\<close> with no guard, so an inner
  length prefix that announces more bytes than remain is clamped by \<open>slice\<close>
  (\<open>parsePrincipals_clamps\<close>) and the certificate is returned. In
  \<open>clamped_principal_blob\<close> the principals field holds the prefix 5 followed by the
  single byte \<open>a\<close>; the decoder returns a certificate with the principal \<open>a\<close> instead
  of failing.
\<close>

theorem clamped_principal_accepted:
  "parseSSHCertificate (JBuffer clamped_principal_blob)
     = Returns (Inr \<lparr>type = ''ssh-ed25519-cert-v01@openssh.com'', nonce = [], serial = 7,
         certType = User, keyId = ''k'', principals = [''a''], validAfter = 1000,
         validBefore = 2000, criticalOptions = Map.empty, extensions = Map.empty,
         signatureKeyBlob = [], signature = []\<rparr>)"
  by (simp add: clamped_principal_blob_def parse_eval buffer_eval)

section \<open>The validator\<close>

text \<open>
  Claim C2, as the code has it: a bound that is 0 counts as not set. If \<open>validBefore\<close> is
  not 0 and \<open>now \<ge> validBefore\<close>, the verdict is invalid with reason
  \<open>Certificate has expired\<close>; otherwise, if \<open>validAfter\<close> is not 0 and
  \<open>now < validAfter\<close>, it is invalid with reason \<open>Certificate is not yet valid\<close>. The
  verdict carries neither reason iff (\<open>validBefore = 0\<close> or \<open>now < validBefore\<close>) and
  (\<open>validAfter = 0\<close> or \<open>validAfter \<le> now\<close>). When \<open>validBefore\<close> is not 0, and
  \<open>validAfter\<close> and \<open>now\<close> are not negative, that is the half-open window
  \<open>validAfter \<le> now < validBefore\<close>; in a decoded certificate \<open>validAfter\<close> is never
  negative (\<open>parsed_uint64_fields\<close>).
\<close>

theorem validate_temporal:
  \<open>(validBefore c \<noteq> 0 \<and> validBefore c \<le> now \<longrightarrow>
      validateCertificate (Inr c) username now
        = \<lparr>valid = False, reason = Some ''Certificate has expired''\<rparr>)
   \<and> (\<not> (validBefore c \<noteq> 0 \<and> validBefore c \<le> now) \<and> validAfter c \<noteq> 0 \<and> now < validAfter c \<longrightarrow>
      validateCertificate (Inr c) username now
        = \<lparr>valid = False, reason = Some ''Certificate is not yet valid''\<rparr>)
   \<and> ((reason (validateCertificate (Inr c) username now) \<noteq> Some ''Certificate has expired''
        \<and> reason (validateCertificate (Inr c) username now) \<noteq> Some ''Certificate is not yet valid'')
       \<longleftrightarrow> (validBefore c = 0 \<or> now < validBefore c) \<and> (validAfter c = 0 \<or> validAfter c \<le> now))
   \<and> (validBefore c \<noteq> 0 \<and> 0 \<le> validAfter c \<and> 0 \<le> now \<longrightarrow>
        ((reason (validateCertificate (Inr c) username now) \<noteq> Some ''Certificate has expired''
          \<and> reason (validateCertificate (Inr c) username now) \<noteq> Some ''Certificate is not yet valid'')
         \<longleftrightarrow> validAfter c \<le> now \<and> now < validBefore c))\<close>
  by (auto simp: validateCertificate_def)

theorem validate_temporal_witness:
  \<open>validateCertificate (Inr admin_root_cert) ''admin'' 2000
      = \<lparr>valid = False, reason = Some ''Certificate has expired''\<rparr>
   \<and> validateCertificate (Inr admin_root_cert) ''admin'' 999
      = \<lparr>valid = False, reason = Some ''Certificate is not yet valid''\<rparr>
   \<and> reason (validateCertificate (Inr admin_root_cert) ''admin'' 1000) \<noteq> Some ''Certificate has expired''
   \<and> reason (validateCertificate (Inr admin_root_cert) ''admin'' 1000) \<noteq> Some ''Certificate is not yet valid''\<close>
  using validate_temporal [of admin_root_cert 2000 "''admin''"]
    validate_temporal [of admin_root_cert 999 "''admin''"]
    validate_temporal [of admin_root_cert 1000 "''admin''"]
  by (simp add: admin_root_cert_def)

text \<open>
  The claim as stated, for every decoded certificate, fails where \<open>validBefore\<close> is 0:
  \<open>zero_window_blob\<close> decodes to \<open>zero_window_cert\<close>, and at time 100, which is not
  before its \<open>validBefore\<close>, the verdict is valid.
\<close>

theorem validate_zero_validBefore_counterexample:
  \<open>parseSSHCertificate (JBuffer zero_window_blob) = Returns (Inr zero_window_cert)
   \<and> validBefore zero_window_cert \<le> 100
   \<and> validateCertificate (Inr zero_window_cert) ''admin'' 100 = \<lparr>valid = True, reason = None\<rparr>\<close>
  by (simp add: validateCertificate_def zero_window_cert_def zero_window_blob_def
      parse_eval buffer_eval)

text \<open>
  Claim C3: for a certificate within its validity window (\<open>validAfter \<le> now < validBefore\<close>)
  and every username, the principal check applies only to a user certificate with a
  non-empty principal list. With no principals the verdict is valid for every username;
  it is valid too for a certificate that is not a user certificate, and for a username
  among the principals. For a user certificate with principals that do not contain the
  username, the verdict is invalid and its reason names the username and lists the
  principals joined by a comma and a space.
\<close>

theorem validate_principals:
  assumes \<open>validAfter c \<le> now\<close> and \<open>now < validBefore c\<close>
  shows \<open>(principals c = [] \<longrightarrow>
            validateCertificate (Inr c) username now = \<lparr>valid = True, reason = None\<rparr>)
    \<and> (certType c \<noteq> User \<longrightarrow>
            validateCertificate (Inr c) username now = \<lparr>valid = True, reason = None\<rparr>)
    \<and> (username \<in> set (principals c) \<longrightarrow>
            validateCertificate (Inr c) username now = \<lparr>valid = True, reason = None\<rparr>)
    \<and> (certType c = User \<and> principals c \<noteq> [] \<and> username \<notin> set (principals c) \<longrightarrow>
            validateCertificate (Inr c) username now
              = \<lparr>valid = False,
                 reason = Some (''Username "'' @ username @ ''" not in certificate principals: ''
                                @ join '', '' (principals c))\<rparr>)\<close>
  using assms by (auto simp: validateCertificate_def)

theorem validate_principals_witness:
  \<open>validateCertificate (Inr admin_root_cert) ''admin'' 1500 = \<lparr>valid = True, reason = None\<rparr>
   \<and> validateCertificate (Inr admin_root_cert) ''testuser'' 1500
      = \<lparr>valid = False,
         reason = Some ''Username "testuser" not in certificate principals: admin, root''\<rparr>
   \<and> validateCertificate (Inr (admin_root_cert\<lparr>principals := []\<rparr>)) ''testuser'' 1500
      = \<lparr>valid = True, reason = None\<rparr>
   \<and> validateCertificate (Inr (admin_root_cert\<lparr>certType := Host\<rparr>)) ''testuser'' 1500
      = \<lparr>valid = True, reason = None\<rparr>\<close>
  using validate_principals [of admin_root_cert 1500 "''admin''"]
    validate_principals [of admin_root_cert 1500 "''testuser''"]
    validate_principals [of "admin_root_cert\<lparr>principals := []\<rparr>" 1500 "''testuser''"]
    validate_principals [of "admin_root_cert\<lparr>certType := Host\<rparr>" 1500 "''testuser''"]
  by (simp add: admin_root_cert_def)

text \<open>
  Claim C5: the four checks run in the order failure input, expired, not yet valid,
  principal mismatch, and the verdict reports the first that fails. A failure input gives
  an invalid verdict with that failure's message as its reason. The expiry clause decides
  whatever the later clauses would say, the not-yet-valid clause decides when the expiry
  clause passes, the principal clause when both pass, and the verdict is valid when all
  pass. The expiry and not-yet-valid clauses are the code's: each fires only for a bound
  that is not 0.
\<close>

theorem validate_order:
  \<open>validateCertificate (Inl err) username now = \<lparr>valid = False, reason = Some (message err)\<rparr>
   \<and> (validBefore c \<noteq> 0 \<and> validBefore c \<le> now \<longrightarrow>
        validateCertificate (Inr c) username now
          = \<lparr>valid = False, reason = Some ''Certificate has expired''\<rparr>)
   \<and> (\<not> (validBefore c \<noteq> 0 \<and> validBefore c \<le> now) \<and> validAfter c \<noteq> 0 \<and> now < validAfter c \<longrightarrow>
        validateCertificate (Inr c) username now
          = \<lparr>valid = False, reason = Some ''Certificate is not yet valid''\<rparr>)
   \<and> (\<not> (validBefore c \<noteq> 0 \<and> validBefore c \<le> now) \<and> \<not> (validAfter c \<noteq> 0 \<and> now < validAfter c)
        \<and> certType c = User \<and> principals c \<noteq> [] \<and> username \<notin> set (principals c) \<longrightarrow>
        validateCertificate (Inr c) username now
          = \<lparr>valid = False,
             reason = Some (''Username "'' @ username @ ''" not in certificate principals: ''
                            @ join '', '' (principals c))\<rparr>)
   \<and> (\<not> (validBefore c \<noteq> 0 \<and> validBefore c \<le> now) \<and> \<not> (validAfter c \<noteq> 0 \<and> now < validAfter c)
        \<and> \<not> (certType c = User \<and> principals c \<noteq> [] \<and> username \<notin> set (principals c)) \<longrightarrow>
        validateCertificate (Inr c) username now = \<lparr>valid = True, reason = None\<rparr>)\<close>
  by (auto simp: validateCertificate_def)

theorem validate_order_witness:
  \<open>validateCertificate (Inl (Error ''Unexpected end of certificate'')) ''testuser'' 2500
      = \<lparr>valid = False, reason = Some ''Unexpected end of certificate''\<rparr>
   \<and> validateCertificate (Inr admin_root_cert) ''testuser'' 2500
      = \<lparr>valid = False, reason = Some ''Certificate has expired''\<rparr>
   \<and> validateCertificate (Inr admin_root_cert) ''testuser'' 500
      = \<lparr>valid = False, reason = Some ''Certificate is not yet valid''\<rparr>
   \<and> validateCertificate (Inr admin_root_cert) ''testuser'' 1500
      = \<lparr>valid = False,
         reason = Some ''Username "testuser" not in certificate principals: admin, root''\<rparr>
   \<and> validateCertificate (Inr admin_root_cert) ''root'' 1500 = \<lparr>valid = True, reason = None\<rparr>\<close>
  using validate_order [of "Error ''Unexpected end of certificate''" "''testuser''" 2500 admin_root_cert]
    validate_order [of "Error ''x''" "''testuser''" 500 admin_root_cert]
    validate_order [of "Error ''x''" "''testuser''" 1500 admin_root_cert]
    validate_order [of "Error ''x''" "''root''" 1500 admin_root_cert]
  by (simp add: admin_root_cert_def)

section \<open>The sniffer\<close>

text \<open>
  Claim C4, as the code has it: \<open>isCertificate\<close> never throws, and returns true iff its
  argument is a Buffer of at least 16 bytes whose first four bytes, read as a big-endian
  length, are at most 64 and at most the length of the rest, and whose first field,
  decoded as text, contains \<open>-cert-v\<close>. For every other value, shorter and empty Buffers
  included, it returns false.
\<close>

theorem isCertificate_iff:
  "isCertificate v =
     Returns (\<exists>data len. v = JBuffer data \<and> 16 \<le> length data
                \<and> readUInt32BE data 0 = Some len \<and> len \<le> 64 \<and> 4 + len \<le> length data
                \<and> includes_str (toString_utf8 (slice_buffer data 4 (4 + len))) ''-cert-v'')"
proof (cases v)
  case (JBuffer data)
  show ?thesis
  proof (cases "length data < 16")
    case True
    with JBuffer show ?thesis by (simp add: isCertificate_def)
  next
    case False
    then obtain len where len: "readUInt32BE data 0 = Some len"
      by (auto simp: readUInt32BE_def)
    with False JBuffer show ?thesis
      by (auto simp: isCertificate_def try_catch_def)
  qed
qed (simp_all add: isCertificate_def)

theorem isCertificate_iff_witness:
  "isCertificate (JBuffer sample_cert_blob) = Returns True
   \<and> isCertificate (JBuffer []) = Returns False
   \<and> isCertificate (JString ''ssh-ed25519-cert-v01@openssh.com'') = Returns False"
  using isCertificate_iff [of "JBuffer sample_cert_blob"] isCertificate_iff [of "JBuffer []"]
    isCertificate_iff [of "JString ''ssh-ed25519-cert-v01@openssh.com''"]
  by (simp add: sample_cert_blob_def buffer_eval)

text \<open>
  With the bound 4 of the claim as stated, \<open>short_cert_blob\<close> would be a certificate: it
  has 11 bytes, its prefix is 7 and its first field is \<open>-cert-v\<close>. The code refuses every
  Buffer of fewer than 16 bytes.
\<close>

theorem isCertificate_short_counterexample:
  "4 \<le> length short_cert_blob \<and> readUInt32BE short_cert_blob 0 = Some 7 \<and> (7::nat) \<le> 64
   \<and> 4 + 7 \<le> length short_cert_blob
   \<and> includes_str (toString_utf8 (slice_buffer short_cert_blob 4 (4 + 7))) ''-cert-v''
   \<and> isCertificate (JBuffer short_cert_blob) = Returns False"
  by (simp add: short_cert_blob_def isCertificate_def buffer_eval)

section \<open>The key-type dispatch\<close>

text \<open>
  Claim C8, as the code has it: the nonce is read between the identifier and the
  dispatch. For every buffer whose identifier and nonce fields can be read, the decoder
  returns the error \<open>Unsupported certificate type: \<close> followed by the identifier iff the
  identifier begins with none of \<open>ssh-rsa\<close>, \<open>ecdsa-sha2-nistp\<close>, \<open>ssh-ed25519\<close> and
  \<open>ssh-dss\<close>; otherwise it reads and drops exactly the number of fields the
  specification's table gives (2, 2, 1, 4) after the nonce and goes on with the serial.
\<close>

theorem parse_key_type_dispatch:
  assumes "readString buf 0 = Returns (typeBuffer, p1)"
    and "readString buf p1 = Returns (nonce_v, p2)"
  shows "(parseSSHCertificate (JBuffer buf)
            = Returns (Inl (Error (''Unsupported certificate type: '' @ toString_utf8 typeBuffer)))
          \<longleftrightarrow> \<not> startsWith (toString_utf8 typeBuffer) ''ssh-rsa''
              \<and> \<not> startsWith (toString_utf8 typeBuffer) ''ecdsa-sha2-nistp''
              \<and> \<not> startsWith (toString_utf8 typeBuffer) ''ssh-ed25519''
              \<and> \<not> startsWith (toString_utf8 typeBuffer) ''ssh-dss'')
    \<and> (\<forall>k. spec_keyMaterialFields (toString_utf8 typeBuffer) = Some k \<longrightarrow>
          parseSSHCertificate (JBuffer buf) =
            (case spec_skipFields k buf p2 of
               Throws e \<Rightarrow> Returns (Inl e)
             | Returns p3 \<Rightarrow>
                 try_catch (parseFromSerial buf p3 (toString_utf8 typeBuffer) nonce_v)
                   (\<lambda>err. Returns (Inl err))))"
proof -
  let ?t = "toString_utf8 typeBuffer"
  let ?unsupported = "Returns (Inl (Error (''Unsupported certificate type: '' @ ?t))) :: (error + certificate) completion"
  note eq = parseSSHCertificate_after_nonce [OF assms]
  have none_iff: "spec_keyMaterialFields ?t = None \<longleftrightarrow>
      \<not> startsWith ?t ''ssh-rsa'' \<and> \<not> startsWith ?t ''ecdsa-sha2-nistp''
      \<and> \<not> startsWith ?t ''ssh-ed25519'' \<and> \<not> startsWith ?t ''ssh-dss''"
    by (simp add: spec_keyMaterialFields_def)
  have "parseSSHCertificate (JBuffer buf) = ?unsupported \<longleftrightarrow> spec_keyMaterialFields ?t = None"
  proof (cases "spec_keyMaterialFields ?t")
    case None
    with eq show ?thesis by simp
  next
    case (Some k)
    have "parseSSHCertificate (JBuffer buf) \<noteq> ?unsupported"
    proof (cases "spec_skipFields k buf p2")
      case (Throws e)
      with eq Some show ?thesis
        by (auto dest: spec_skipFields_Throws)
    next
      case (Returns p3)
      show ?thesis
      proof (cases "parseFromSerial buf p3 ?t nonce_v")
        case pr: (Returns r)
        with eq Some Returns show ?thesis
          by (auto simp: try_catch_def dest: parseFromSerial_Returns)
      next
        case pt: (Throws e)
        with eq Some Returns show ?thesis
          by (auto simp: try_catch_def dest: parseFromSerial_Throws)
      qed
    qed
    with Some show ?thesis by simp
  qed
  with none_iff eq show ?thesis by simp
qed

theorem parse_key_type_dispatch_witness:
  "parseSSHCertificate (JBuffer sample_cert_blob)
      \<noteq> Returns (Inl (Error ''Unsupported certificate type: ssh-ed25519-cert-v01@openssh.com''))
   \<and> spec_keyMaterialFields ''ssh-ed25519-cert-v01@openssh.com'' = Some 1
   \<and> spec_skipFields 1 sample_cert_blob 40 = Returns 44
   \<and> parseSSHCertificate (JBuffer sample_cert_blob)
      = try_catch (parseFromSerial sample_cert_blob 44 ''ssh-ed25519-cert-v01@openssh.com'' [])
          (\<lambda>err. Returns (Inl err))
   \<and> parseSSHCertificate (JBuffer unsupported_cert_blob)
      = Returns (Inl (Error ''Unsupported certificate type: x-cert-v''))"
proof -
  have t1: "readString sample_cert_blob 0
      = Returns (Buffer_from ''ssh-ed25519-cert-v01@openssh.com'', 36)"
    and n1: "readString sample_cert_blob 36 = Returns ([], 40)"
    and s1: "spec_skipFields 1 sample_cert_blob 40 = Returns 44"
    by (simp_all add: sample_cert_blob_def readString_def cbind_def buffer_eval)
  have t2: "readString unsupported_cert_blob 0 = Returns (Buffer_from ''x-cert-v'', 12)"
    and n2: "readString unsupported_cert_blob 12 = Returns ([], 16)"
    by (simp_all add: unsupported_cert_blob_def readString_def buffer_eval)
  have d1: "toString_utf8 (Buffer_from ''ssh-ed25519-cert-v01@openssh.com'')
      = ''ssh-ed25519-cert-v01@openssh.com''"
    and d2: "toString_utf8 (Buffer_from ''x-cert-v'') = ''x-cert-v''"
    by (simp_all add: buffer_eval)
  have k1: "spec_keyMaterialFields ''ssh-ed25519-cert-v01@openssh.com'' = Some 1"
    by (simp add: spec_keyMaterialFields_def startsWith_def)
  have k2: "\<not> startsWith ''x-cert-v'' ''ssh-rsa''" "\<not> startsWith ''x-cert-v'' ''ecdsa-sha2-nistp''"
    "\<not> startsWith ''x-cert-v'' ''ssh-ed25519''" "\<not> startsWith ''x-cert-v'' ''ssh-dss''"
    by (simp_all add: startsWith_def)
  note w1 = parse_key_type_dispatch [OF t1 n1, unfolded d1]
  note w2 = parse_key_type_dispatch [OF t2 n2, unfolded d2]
  from w1 have a1: "parseSSHCertificate (JBuffer sample_cert_blob)
      \<noteq> Returns (Inl (Error ''Unsupported certificate type: ssh-ed25519-cert-v01@openssh.com''))"
    by (simp add: startsWith_def)
  from w1 k1 have "parseSSHCertificate (JBuffer sample_cert_blob) =
      (case spec_skipFields 1 sample_cert_blob 40 of
         Throws e \<Rightarrow> Returns (Inl e)
       | Returns p3 \<Rightarrow>
           try_catch (parseFromSerial sample_cert_blob p3 ''ssh-ed25519-cert-v01@openssh.com'' [])
             (\<lambda>err. Returns (Inl err)))"
    by blast
  then have b1: "parseSSHCertificate (JBuffer sample_cert_blob)
      = try_catch (parseFromSerial sample_cert_blob 44 ''ssh-ed25519-cert-v01@openssh.com'' [])
          (\<lambda>err. Returns (Inl err))"
    by (simp only: s1 completion.case)
  from w2 k2 have a2: "parseSSHCertificate (JBuffer unsupported_cert_blob)
      = Returns (Inl (Error ''Unsupported certificate type: x-cert-v''))"
    by simp
  show ?thesis
    by (intro conjI a1 k1 s1 b1 a2)
qed

text \<open>
  For every input buffer the claim fails: in \<open>truncated_nonce_blob\<close> the identifier
  \<open>abcd\<close> begins with none of the four prefixes, and the decoder fails on the missing
  nonce with \<open>Unexpected end of certificate\<close>, not with an unsupported type.
\<close>

theorem truncated_nonce_counterexample:
  "readString truncated_nonce_blob 0 = Returns (Buffer_from ''abcd'', 8)
   \<and> toString_utf8 (Buffer_from ''abcd'') = ''abcd''
   \<and> \<not> startsWith ''abcd'' ''ssh-rsa'' \<and> \<not> startsWith ''abcd'' ''ecdsa-sha2-nistp''
   \<and> \<not> startsWith ''abcd'' ''ssh-ed25519'' \<and> \<not> startsWith ''abcd'' ''ssh-dss''
   \<and> parseSSHCertificate (JBuffer truncated_nonce_blob)
       = Returns (Inl (Error ''Unexpected end of certificate''))"
  by (simp add: truncated_nonce_blob_def parse_eval buffer_eval)

section \<open>Trailing bytes\<close>

text \<open>
  Claim C10: the decoder does not check that the cursor has reached the end of the buffer
  after the signature. Every buffer that decodes to a certificate still decodes to the
  same certificate, field for field, with any bytes appended.
\<close>

theorem parse_ignores_trailing_bytes:
  assumes "parseSSHCertificate (JBuffer buf) = Returns (Inr cert)"
  shows "parseSSHCertificate (JBuffer (buf @ extra)) = Returns (Inr cert)"
proof -
  from assms have len: "8 \<le> length buf"
    by (auto simp: parseSSHCertificate_def split: if_splits)
  with assms have "parseBody buf = Returns (Inr cert)"
    by (cases "parseBody buf") (auto simp: parseSSHCertificate_def try_catch_def)
  then have "parseBody (buf @ extra) = Returns (Inr cert)"
    by (rule parseBody_append)
  with len show ?thesis
    by (simp add: parseSSHCertificate_def try_catch_def)
qed

theorem parse_ignores_trailing_bytes_witness:
  "parseSSHCertificate (JBuffer sample_cert_blob) = Returns (Inr sample_cert)
   \<and> parseSSHCertificate (JBuffer (sample_cert_blob @ [222, 173, 190, 239])) = Returns (Inr sample_cert)"
  using parse_ignores_trailing_bytes [OF sample_cert_blob_parses, of "[222, 173, 190, 239]"]
    sample_cert_blob_parses
  by simp

section \<open>The certified key\<close>

text \<open>
  Claim C6: \<open>wrapKeyWithCertificate\<close> returns the error \<open>Certificate must be a Buffer\<close>
  when the certificate is not a Buffer, the error
  \<open>Buffer does not appear to be a certificate\<close> when \<open>isCertificate\<close> refuses it, and
  the decoder's own error when the decoder fails. It never throws, and whenever it does
  not return a wrapper the key is as it was.
\<close>

theorem wrapKeyWithCertificate_failures:
  "((\<forall>buf. v \<noteq> JBuffer buf) \<longrightarrow>
      wrapKeyWithCertificate key v = (Returns (Inl (Error ''Certificate must be a Buffer'')), key))
   \<and> (isCertificate (JBuffer buf) = Returns False \<longrightarrow>
      wrapKeyWithCertificate key (JBuffer buf)
        = (Returns (Inl (Error ''Buffer does not appear to be a certificate'')), key))
   \<and> (isCertificate (JBuffer buf) = Returns True
        \<and> parseSSHCertificate (JBuffer buf) = Returns (Inl err) \<longrightarrow>
      wrapKeyWithCertificate key (JBuffer buf) = (Returns (Inl err), key))
   \<and> (\<exists>r. fst (wrapKeyWithCertificate key v) = Returns r)
   \<and> ((\<forall>ck. fst (wrapKeyWithCertificate key v) \<noteq> Returns (Inr ck)) \<longrightarrow>
        snd (wrapKeyWithCertificate key v) = key)"
proof -
  have "(\<forall>buf. v \<noteq> JBuffer buf) \<longrightarrow> wrapResult key v = Returns (Inl (Error ''Certificate must be a Buffer''))"
    by (cases v) (simp_all add: wrapResult_def)
  moreover have "isCertificate (JBuffer buf) = Returns False \<longrightarrow>
      wrapResult key (JBuffer buf) = Returns (Inl (Error ''Buffer does not appear to be a certificate''))"
    by (simp add: wrapResult_def cbind_def try_catch_def)
  moreover have "isCertificate (JBuffer buf) = Returns True
        \<and> parseSSHCertificate (JBuffer buf) = Returns (Inl err) \<longrightarrow>
      wrapResult key (JBuffer buf) = Returns (Inl err)"
    by (simp add: wrapResult_def cbind_def try_catch_def)
  ultimately show ?thesis
    using wrapResult_Returns [of key v] by (simp add: wrapKeyWithCertificate_def)
qed

theorem wrapKeyWithCertificate_failures_witness:
  "wrapKeyWithCertificate (KeyObject sample_key) (JString ''ssh-ed25519-cert-v01@openssh.com'')
      = (Returns (Inl (Error ''Certificate must be a Buffer'')), KeyObject sample_key)
   \<and> wrapKeyWithCertificate (KeyObject sample_key) (JBuffer short_cert_blob)
      = (Returns (Inl (Error ''Buffer does not appear to be a certificate'')), KeyObject sample_key)
   \<and> wrapKeyWithCertificate (KeyObject sample_key) (JBuffer unsupported_cert_blob)
      = (Returns (Inl (Error ''Unsupported certificate type: x-cert-v'')), KeyObject sample_key)
   \<and> wrapKeyWithCertificate KeyUndefined (JBuffer sample_cert_blob)
      = (Returns (Inl (TypeError ''Cannot read properties of undefined (reading 'type')'')),
         KeyUndefined)"
proof -
  note short = short_cert_blob_isCertificate
  have undef: "fst (wrapKeyWithCertificate KeyUndefined (JBuffer sample_cert_blob))
      = Returns (Inl (TypeError ''Cannot read properties of undefined (reading 'type')''))"
    by (simp add: wrapKeyWithCertificate_def wrapResult_def cbind_def try_catch_def
        new_CertificateKey_def sample_cert_blob_isCertificate sample_cert_blob_parses)
  from wrapKeyWithCertificate_failures
         [of "JString ''ssh-ed25519-cert-v01@openssh.com''" "KeyObject sample_key"]
  have a: "wrapKeyWithCertificate (KeyObject sample_key) (JString ''ssh-ed25519-cert-v01@openssh.com'')
      = (Returns (Inl (Error ''Certificate must be a Buffer'')), KeyObject sample_key)"
    by simp
  from wrapKeyWithCertificate_failures [of _ "KeyObject sample_key" short_cert_blob] short
  have b: "wrapKeyWithCertificate (KeyObject sample_key) (JBuffer short_cert_blob)
      = (Returns (Inl (Error ''Buffer does not appear to be a certificate'')), KeyObject sample_key)"
    by simp
  from wrapKeyWithCertificate_failures [of _ "KeyObject sample_key" unsupported_cert_blob]
    unsupported_cert_blob_isCertificate unsupported_cert_blob_parse
  have c: "wrapKeyWithCertificate (KeyObject sample_key) (JBuffer unsupported_cert_blob)
      = (Returns (Inl (Error ''Unsupported certificate type: x-cert-v'')), KeyObject sample_key)"
    by simp
  from wrapKeyWithCertificate_failures [of "JBuffer sample_cert_blob" KeyUndefined] undef
  have "snd (wrapKeyWithCertificate KeyUndefined (JBuffer sample_cert_blob)) = KeyUndefined"
    by simp
  with undef have d: "wrapKeyWithCertificate KeyUndefined (JBuffer sample_cert_blob)
      = (Returns (Inl (TypeError ''Cannot read properties of undefined (reading 'type')'')),
         KeyUndefined)"
    by (simp add: prod_eq_iff)
  show ?thesis by (intro conjI a b c d)
qed

text \<open>
  Claim C7: for every wrapper that \<open>wrapKeyWithCertificate\<close> returns for a base key,
  \<open>sign\<close>, \<open>verify\<close>, \<open>isPrivateKey\<close>, \<open>getPublicSSH\<close> and \<open>getPublicPEM\<close> of the
  wrapper return what the same operation of the base key returns on the same arguments;
  for the last two that is \<open>undefined\<close> when the base key lacks the method.
\<close>

theorem CertificateKey_delegates:
  assumes "fst (wrapKeyWithCertificate (KeyObject k) v) = Returns (Inr ck)"
  shows "CertificateKey_sign ck data algo = sign k data algo
    \<and> CertificateKey_verify ck data sig algo = verify k data sig algo
    \<and> CertificateKey_isPrivateKey ck = isPrivateKey k
    \<and> CertificateKey_getPublicSSH ck algo = map_option (\<lambda>m. m algo) (getPublicSSH k)
    \<and> CertificateKey_getPublicPEM ck = getPublicPEM k"
proof -
  from assms have "baseKey ck = k"
    by (auto simp: wrapKeyWithCertificate_def wrapResult_def cbind_def try_catch_def
        new_CertificateKey_def split: js_value.splits completion.splits if_splits sum.splits)
  then show ?thesis
    by (simp add: CertificateKey_sign_def CertificateKey_verify_def CertificateKey_isPrivateKey_def
        CertificateKey_getPublicSSH_def CertificateKey_getPublicPEM_def split: option.splits)
qed

theorem CertificateKey_delegates_witness:
  "fst (wrapKeyWithCertificate (KeyObject sample_key) (JBuffer sample_cert_blob))
     = Returns (Inr sample_certificate_key)
   \<and> CertificateKey_sign sample_certificate_key [1, 2, 3] None = [3, 2, 1]
   \<and> CertificateKey_verify sample_certificate_key [1, 2, 3] [3, 2, 1] (Some ''ssh-ed25519'') = True
   \<and> CertificateKey_isPrivateKey sample_certificate_key = True
   \<and> CertificateKey_getPublicSSH sample_certificate_key None = Some [1, 2, 3]
   \<and> CertificateKey_getPublicPEM sample_certificate_key = None"
  using CertificateKey_delegates [OF sample_wrap, of "[1, 2, 3]" None "[3, 2, 1]"]
    CertificateKey_delegates [OF sample_wrap, of "[1, 2, 3]" "Some ''ssh-ed25519''" "[3, 2, 1]"]
    sample_wrap
  by (simp add: sample_key_def)

text \<open>
  Claim C9: for every Buffer that \<open>isCertificate\<close> refuses,
  \<open>extractCertificateFromData\<close> returns \<open>null\<close>, not an error; for every Buffer that
  \<open>isCertificate\<close> accepts it returns the Buffer itself, whatever the decoder would say.
  Its result is fixed by \<open>isCertificate\<close> alone: the function has no call of the
  decoder. So a Buffer that \<open>isCertificate\<close> accepts and the decoder refuses gives a
  result that is not \<open>null\<close>, and its decoding error shows only in
  \<open>wrapKeyWithCertificate\<close>.
\<close>

theorem extract_null_when_not_certificate:
  "(isCertificate (JBuffer data) = Returns False \<longrightarrow>
      extractCertificateFromData (JBuffer data) = Returns ExtractedNull)
   \<and> (isCertificate (JBuffer data) = Returns True \<longrightarrow>
      extractCertificateFromData (JBuffer data) = Returns (Extracted data))
   \<and> (isCertificate (JBuffer data) = Returns True
        \<and> parseSSHCertificate (JBuffer data) = Returns (Inl err) \<longrightarrow>
      extractCertificateFromData (JBuffer data) = Returns (Extracted data)
      \<and> fst (wrapKeyWithCertificate key (JBuffer data)) = Returns (Inl err))"
  by (simp add: extractCertificateFromData_def wrapKeyWithCertificate_def wrapResult_def
      cbind_def try_catch_def)

theorem extract_null_when_not_certificate_witness:
  "extractCertificateFromData (JBuffer short_cert_blob) = Returns ExtractedNull
   \<and> extractCertificateFromData (JBuffer unsupported_cert_blob)
      = Returns (Extracted unsupported_cert_blob)
   \<and> fst (wrapKeyWithCertificate (KeyObject sample_key) (JBuffer unsupported_cert_blob))
      = Returns (Inl (Error ''Unsupported certificate type: x-cert-v''))"
proof -
  note short = short_cert_blob_isCertificate
  from extract_null_when_not_certificate [of short_cert_blob] short
  have a: "extractCertificateFromData (JBuffer short_cert_blob) = Returns ExtractedNull"
    by simp
  from extract_null_when_not_certificate
         [of unsupported_cert_blob "Error ''Unsupported certificate type: x-cert-v''"
            "KeyObject sample_key"]
    unsupported_cert_blob_isCertificate unsupported_cert_blob_parse
  have b: "extractCertificateFromData (JBuffer unsupported_cert_blob)
      = Returns (Extracted unsupported_cert_blob)"
    and c: "fst (wrapKeyWithCertificate (KeyObject sample_key) (JBuffer unsupported_cert_blob))
      = Returns (Inl (Error ''Unsupported certificate type: x-cert-v''))"
    by simp_all
  show ?thesis by (intro conjI a b c)
qed

end
